theory Spec2Isabelle
  imports Main
begin

section \<open>Python values, exceptions and the library operations the adapters use\<close>

text \<open>
  Both adapters work on the value that \<^verbatim>\<open>response.json()\<close> returns: a tree of Python
  \<^verbatim>\<open>None\<close>, booleans, integers, strings, lists and dictionaries, read with
  \<^verbatim>\<open>.get\<close>, subscripts and truth tests. A dictionary is an association list in
  insertion order with distinct keys (a decoded JSON object has no repeated key).
  A JSON number with a fraction or an exponent decodes to a Python float; floating point
  is outside this embedding, so numbers are the integers (the transit API's \<^verbatim>\<open>Int\<close> and
  \<^verbatim>\<open>Long\<close> fields). Characters are code points below 256.
\<close>

datatype json =
    JNull
  | JBool bool
  | JInt int
  | JStr string
  | JArr "json list"
  | JObj "(string \<times> json) list"

text \<open>
  The exceptions that the modelled code can raise. \<open>ValueError\<close> stands for what
  \<^verbatim>\<open>datetime.fromtimestamp\<close> raises on a timestamp it cannot represent (Python documents
  \<^verbatim>\<open>ValueError\<close>, \<^verbatim>\<open>OverflowError\<close> or \<^verbatim>\<open>OSError\<close>, by platform), and is
  also what the JSON encoder raises on a payload it cannot write;
  \<open>JSONDecodeError\<close> is what \<^verbatim>\<open>response.json()\<close> raises on a body that is not JSON;
  \<open>HTTPStatusError\<close> carries the status code and the body text, \<open>RequestError\<close> the
  text of the transport failure; \<open>InvalidURL\<close> and \<open>UnicodeEncodeError\<close> are raised by
  the HTTP client on a URL it cannot parse and on a header value outside ASCII.
\<close>

datatype pyexn =
    KeyError
  | IndexError
  | TypeError
  | AttributeError
  | ValueError
  | JSONDecodeError
  | HTTPStatusError int string
  | RequestError string
  | InvalidURL
  | UnicodeEncodeError

text \<open>Sequencing of statements that may raise: the first exception ends the call.\<close>

definition and_then :: "'e + 'a \<Rightarrow> ('a \<Rightarrow> 'e + 'b) \<Rightarrow> 'e + 'b" where
  "and_then m f = (case m of Inl e \<Rightarrow> Inl e | Inr x \<Rightarrow> f x)"

text \<open>A list comprehension whose element expression may raise.\<close>

fun map_raising :: "('a \<Rightarrow> 'e + 'b) \<Rightarrow> 'a list \<Rightarrow> 'e + 'b list" where
  "map_raising f [] = Inr []"
| "map_raising f (x # xs) =
     (case f x of
        Inl e \<Rightarrow> Inl e
      | Inr y \<Rightarrow> (case map_raising f xs of Inl e \<Rightarrow> Inl e | Inr ys \<Rightarrow> Inr (y # ys)))"

subsection \<open>Rendering: \<^verbatim>\<open>str\<close>, \<^verbatim>\<open>repr\<close> and \<^verbatim>\<open>str.join\<close>\<close>

definition digit_char :: "nat \<Rightarrow> char" where
  "digit_char n = ''0123456789abcdef'' ! n"

function nat_digits :: "nat \<Rightarrow> string" where
  "nat_digits n =
     (if n < 10 then [digit_char n] else nat_digits (n div 10) @ [digit_char (n mod 10)])"
  by pat_completeness auto
termination
  by (relation "measure id") auto

declare nat_digits.simps [simp del]

text \<open>\<^verbatim>\<open>str(i)\<close> of an integer: decimal, with a minus sign below zero.\<close>

definition py_str_int :: "int \<Rightarrow> string" where
  "py_str_int i = (if i < 0 then ''-'' @ nat_digits (nat (- i)) else nat_digits (nat i))"

text \<open>\<^verbatim>\<open>sep.join(xs)\<close>.\<close>

fun join :: "string \<Rightarrow> string list \<Rightarrow> string" where
  "join sep [] = []"
| "join sep [x] = x"
| "join sep (x # y # ys) = x @ sep @ join sep (y # ys)"

text \<open>
  \<^verbatim>\<open>repr\<close> of a string: single quotes, unless the string holds a single quote and no
  double quote; the backslash, the chosen quote, tab, newline and carriage return are
  escaped, and the other code points that are not printable become \<^verbatim>\<open>\xhh\<close>.
\<close>

definition py_printable :: "char \<Rightarrow> bool" where
  "py_printable c =
     (let n = (of_char c :: nat) in \<not> (n < 32 \<or> n = 127 \<or> (128 \<le> n \<and> n \<le> 160) \<or> n = 173))"

definition repr_char :: "char \<Rightarrow> char \<Rightarrow> string" where
  "repr_char q c =
     (if c = CHR 0x5C \<or> c = q then [CHR 0x5C, c]
      else if c = CHR 0x09 then [CHR 0x5C, CHR ''t'']
      else if c = CHR 0x0A then [CHR 0x5C, CHR ''n'']
      else if c = CHR 0x0D then [CHR 0x5C, CHR ''r'']
      else if py_printable c then [c]
      else [CHR 0x5C, CHR ''x'', digit_char (of_char c div 16), digit_char (of_char c mod 16)])"

definition py_repr_str :: "string \<Rightarrow> string" where
  "py_repr_str s =
     (let q = (if CHR 0x27 \<in> set s \<and> CHR 0x22 \<notin> set s then CHR 0x22 else CHR 0x27)
      in [q] @ concat (map (repr_char q) s) @ [q])"

fun py_repr :: "json \<Rightarrow> string" where
  "py_repr JNull = ''None''"
| "py_repr (JBool b) = (if b then ''True'' else ''False'')"
| "py_repr (JInt i) = py_str_int i"
| "py_repr (JStr s) = py_repr_str s"
| "py_repr (JArr xs) = ''['' @ join '', '' (map py_repr xs) @ '']''"
| "py_repr (JObj kvs) =
     ''{'' @ join '', '' (map (\<lambda>(k, v). py_repr_str k @ '': '' @ py_repr v) kvs) @ ''}''"

text \<open>What an f-string field \<^verbatim>\<open>{x}\<close> renders: \<^verbatim>\<open>str(x)\<close>.\<close>

definition py_str :: "json \<Rightarrow> string" where
  "py_str x = (case x of JStr s \<Rightarrow> s | _ \<Rightarrow> py_repr x)"

subsection \<open>Truth tests, \<^verbatim>\<open>.get\<close>, \<^verbatim>\<open>in\<close>, subscripts, slices, iteration\<close>

fun py_truthy :: "json \<Rightarrow> bool" where
  "py_truthy JNull = False"
| "py_truthy (JBool b) = b"
| "py_truthy (JInt i) = (i \<noteq> 0)"
| "py_truthy (JStr s) = (s \<noteq> [])"
| "py_truthy (JArr xs) = (xs \<noteq> [])"
| "py_truthy (JObj kvs) = (kvs \<noteq> [])"

definition dict_get :: "(string \<times> json) list \<Rightarrow> string \<Rightarrow> json \<Rightarrow> json" where
  "dict_get kvs k d = (case map_of kvs k of None \<Rightarrow> d | Some v \<Rightarrow> v)"

text \<open>\<^verbatim>\<open>x.get(k, d)\<close>: only a dictionary has the method.\<close>

definition py_get :: "json \<Rightarrow> string \<Rightarrow> json \<Rightarrow> pyexn + json" where
  "py_get x k d = (case x of JObj kvs \<Rightarrow> Inr (dict_get kvs k d) | _ \<Rightarrow> Inl AttributeError)"

fun is_infix :: "string \<Rightarrow> string \<Rightarrow> bool" where
  "is_infix k [] = (k = [])"
| "is_infix k (c # cs) = (take (length k) (c # cs) = k \<or> is_infix k cs)"

text \<open>
  \<^verbatim>\<open>k in x\<close> for a string \<open>k\<close>: a key of a dictionary, an element of a list, a
  substring of a string; the other values are not containers.
\<close>

definition py_contains :: "string \<Rightarrow> json \<Rightarrow> pyexn + bool" where
  "py_contains k x =
     (case x of
        JObj kvs \<Rightarrow> Inr (map_of kvs k \<noteq> None)
      | JArr xs \<Rightarrow> Inr (List.member xs (JStr k))
      | JStr s \<Rightarrow> Inr (is_infix k s)
      | _ \<Rightarrow> Inl TypeError)"

text \<open>\<^verbatim>\<open>x[k]\<close> for a string \<open>k\<close>.\<close>

definition py_subscript_key :: "json \<Rightarrow> string \<Rightarrow> pyexn + json" where
  "py_subscript_key x k =
     (case x of
        JObj kvs \<Rightarrow> (case map_of kvs k of None \<Rightarrow> Inl KeyError | Some v \<Rightarrow> Inr v)
      | _ \<Rightarrow> Inl TypeError)"

text \<open>
  \<^verbatim>\<open>xs[i]\<close> on a sequence: an index from \<open>0\<close>, or a negative one counted from
  the end; anything else is out of range.
\<close>

definition seq_index :: "'a list \<Rightarrow> int \<Rightarrow> pyexn + 'a" where
  "seq_index xs i =
     (if 0 \<le> i \<and> i < int (length xs) then Inr (xs ! nat i)
      else if i < 0 \<and> - int (length xs) \<le> i then Inr (xs ! nat (int (length xs) + i))
      else Inl IndexError)"

text \<open>
  \<^verbatim>\<open>x[i]\<close> for an integer \<open>i\<close>. The keys of a decoded dictionary are strings, so an
  integer is never one of them.
\<close>

definition py_subscript_idx :: "json \<Rightarrow> int \<Rightarrow> pyexn + json" where
  "py_subscript_idx x i =
     (case x of
        JArr xs \<Rightarrow> seq_index xs i
      | JStr s \<Rightarrow> and_then (seq_index s i) (\<lambda>c. Inr (JStr [c]))
      | JObj kvs \<Rightarrow> Inl KeyError
      | _ \<Rightarrow> Inl TypeError)"

text \<open>\<^verbatim>\<open>xs[:n]\<close>: a negative bound counts from the end.\<close>

definition seq_slice_to :: "'a list \<Rightarrow> int \<Rightarrow> 'a list" where
  "seq_slice_to xs n = (if 0 \<le> n then take (nat n) xs else take (nat (int (length xs) + n)) xs)"

text \<open>
  \<^verbatim>\<open>x[:n]\<close> on a value. A dictionary has no slices (\<^verbatim>\<open>TypeError\<close>: a slice is not
  hashable, in the Python versions before 3.12).
\<close>

definition py_slice_to :: "json \<Rightarrow> int \<Rightarrow> pyexn + json" where
  "py_slice_to x n =
     (case x of
        JArr xs \<Rightarrow> Inr (JArr (seq_slice_to xs n))
      | JStr s \<Rightarrow> Inr (JStr (seq_slice_to s n))
      | _ \<Rightarrow> Inl TypeError)"

text \<open>The elements a \<^verbatim>\<open>for\<close> loop or a comprehension visits.\<close>

definition py_iter :: "json \<Rightarrow> pyexn + json list" where
  "py_iter x =
     (case x of
        JArr xs \<Rightarrow> Inr xs
      | JStr s \<Rightarrow> Inr (map (\<lambda>c. JStr [c]) s)
      | JObj kvs \<Rightarrow> Inr (map (\<lambda>kv. JStr (fst kv)) kvs)
      | _ \<Rightarrow> Inl TypeError)"

text \<open>\<^verbatim>\<open>len(x)\<close>.\<close>

definition py_len :: "json \<Rightarrow> pyexn + int" where
  "py_len x =
     (case x of
        JArr xs \<Rightarrow> Inr (int (length xs))
      | JStr s \<Rightarrow> Inr (int (length s))
      | JObj kvs \<Rightarrow> Inr (int (length kvs))
      | _ \<Rightarrow> Inl TypeError)"

text \<open>
  The integer a value stands for in arithmetic and comparisons: \<^verbatim>\<open>bool\<close> is a subclass
  of \<^verbatim>\<open>int\<close>. On the other values \<^verbatim>\<open>+\<close> with an integer, \<^verbatim>\<open>> 0\<close> and
  \<^verbatim>\<open>datetime.fromtimestamp\<close> raise \<^verbatim>\<open>TypeError\<close>.
\<close>

definition py_num :: "json \<Rightarrow> int option" where
  "py_num x = (case x of JInt i \<Rightarrow> Some i | JBool b \<Rightarrow> Some (if b then 1 else 0) | _ \<Rightarrow> None)"

text \<open>
  \<^verbatim>\<open>str.strip()\<close>: the code points below 256 for which \<^verbatim>\<open>str.isspace\<close> holds are
  9 to 13, 28 to 32, 133 and 160.
\<close>

definition py_isspace :: "char \<Rightarrow> bool" where
  "py_isspace c =
     (let n = (of_char c :: nat) in (9 \<le> n \<and> n \<le> 13) \<or> (28 \<le> n \<and> n \<le> 32) \<or> n = 133 \<or> n = 160)"

definition py_strip :: "string \<Rightarrow> string" where
  "py_strip s = rev (dropWhile py_isspace (rev (dropWhile py_isspace s)))"

section \<open>The transit query adapter (\<^verbatim>\<open>helsinki_transport.py\<close>)\<close>

subsection \<open>The outcome of one HTTP POST\<close>

text \<open>
  What \<^verbatim>\<open>client.post\<close> does with one request. It can raise while it builds the
  request, before anything is sent: on a URL it cannot parse, on a payload the JSON
  encoder refuses (a NaN or infinite temperature) and on a header value outside ASCII.
  None of these is an \<^verbatim>\<open>httpx.RequestError\<close>.
\<close>

datatype send_failure =
    BadURL
  | PayloadNotJSON
  | HeaderNotASCII

definition send_exception :: "send_failure \<Rightarrow> pyexn" where
  "send_exception f =
     (case f of
        BadURL \<Rightarrow> InvalidURL
      | PayloadNotJSON \<Rightarrow> ValueError
      | HeaderNotASCII \<Rightarrow> UnicodeEncodeError)"

text \<open>
  Otherwise the outcome is a transport failure (DNS, connect, timeout: an
  \<^verbatim>\<open>httpx.RequestError\<close>) with its message, or a response with its status code, its
  body text and the body's JSON decoding (\<open>None\<close> when the body is not JSON). The code
  reads the body text in one place only, the message for a status outside 2xx, so the
  examples below leave it empty where the decoding is given.
\<close>

datatype http_outcome =
    NotSent send_failure
  | TransportFailure string
  | HttpResponse int string "json option"

text \<open>
  \<^verbatim>\<open>make_graphql_request\<close> posts the query, calls \<^verbatim>\<open>raise_for_status()\<close> and returns
  \<^verbatim>\<open>response.json()\<close>; every exception is caught and turned into \<^verbatim>\<open>None\<close>.
  The argument is the outcome of the POST.
\<close>

definition make_graphql_request :: "http_outcome \<Rightarrow> json" where
  "make_graphql_request reply =
     (case reply of
        NotSent f \<Rightarrow> JNull
      | TransportFailure msg \<Rightarrow> JNull
      | HttpResponse status body decoded \<Rightarrow>
          if 200 \<le> status \<and> status < 300
          then (case decoded of None \<Rightarrow> JNull | Some j \<Rightarrow> j)
          else JNull)"

subsection \<open>Wall-clock rendering\<close>

text \<open>
  \<^verbatim>\<open>datetime.fromtimestamp\<close> reads the local time zone of the process and has a
  range of timestamps it can represent (years 1 to 9999 at most, narrower on some
  platforms). Both belong to the platform, not to the program: \<open>utcoffset p t\<close> is the
  offset of local time from UTC, in seconds, at the instant \<open>t\<close>, and
  \<open>representable p t\<close> says that \<^verbatim>\<open>fromtimestamp(t)\<close> returns.
\<close>

record platform =
  utcoffset :: "int \<Rightarrow> int"
  representable :: "int \<Rightarrow> bool"

text \<open>
  A platform whose local time is UTC, with the range that CPython's local
  \<^verbatim>\<open>fromtimestamp\<close> accepts there: up to the last second of the year 9999, and from
  the second day of the year 1 (it also looks one day back, and raises when that day
  falls into the year 0).
\<close>

definition utc_platform :: platform where
  "utc_platform =
     \<lparr>utcoffset = (\<lambda>t. 0),
      representable = (\<lambda>t. - 62135510400 \<le> t \<and> t \<le> 253402300799)\<rparr>"

text \<open>
  The naive local \<^verbatim>\<open>datetime\<close> is carried as its count of wall-clock seconds from
  1970-01-01 00:00:00.
\<close>

definition fromtimestamp :: "platform \<Rightarrow> int \<Rightarrow> pyexn + int" where
  "fromtimestamp p t = (if representable p t then Inr (t + utcoffset p t) else Inl ValueError)"

definition pad2 :: "nat \<Rightarrow> string" where
  "pad2 n = [digit_char (n div 10), digit_char (n mod 10)]"

text \<open>\<^verbatim>\<open>dt.strftime("%H:%M:%S")\<close>.\<close>

definition strftime_HMS :: "int \<Rightarrow> string" where
  "strftime_HMS dt =
     (let s = nat (dt mod 86400)
      in pad2 (s div 3600) @ '':'' @ pad2 (s mod 3600 div 60) @ '':'' @ pad2 (s mod 60))"

text \<open>
  \<^verbatim>\<open>format_time(service_day, seconds)\<close>. The callers pass what the response holds, so
  the arguments are values; a sum that is not an integer makes
  \<^verbatim>\<open>service_day + seconds\<close> or \<^verbatim>\<open>fromtimestamp\<close> raise \<^verbatim>\<open>TypeError\<close>.
\<close>

definition format_time :: "platform \<Rightarrow> json \<Rightarrow> json \<Rightarrow> pyexn + string" where
  "format_time p service_day seconds =
     (case (py_num service_day, py_num seconds) of
        (Some a, Some b) \<Rightarrow>
          (let timestamp = a + b
           in and_then (fromtimestamp p timestamp) (\<lambda>dt. Inr (strftime_HMS dt)))
      | _ \<Rightarrow> Inl TypeError)"

subsection \<open>Stop-time lines\<close>

text \<open>
  The \<^verbatim>\<open>if delay > 0 ... elif delay < 0 ...\<close> block of both formatters: the comparison
  raises \<^verbatim>\<open>TypeError\<close> on a delay that is no number.
\<close>

definition time_info :: "string \<Rightarrow> json \<Rightarrow> pyexn + string" where
  "time_info scheduled_time delay =
     (case py_num delay of
        None \<Rightarrow> Inl TypeError
      | Some d \<Rightarrow>
          if d > 0 then Inr (scheduled_time @ '' (Delayed by '' @ py_str delay @ ''s)'')
          else if d < 0 then Inr (scheduled_time @ '' (Early by '' @ py_str_int (abs d) @ ''s)'')
          else Inr scheduled_time)"

definition format_departure :: "platform \<Rightarrow> json \<Rightarrow> json \<Rightarrow> pyexn + string" where
  "format_departure p stoptime service_day =
     and_then (py_get stoptime ''scheduledDeparture'' (JInt 0)) (\<lambda>scheduled_dep.
     and_then (py_get stoptime ''realtimeDeparture'' scheduled_dep) (\<lambda>realtime_dep.
     and_then (py_get stoptime ''departureDelay'' (JInt 0)) (\<lambda>delay.
     and_then (py_get stoptime ''headsign'' (JStr ''Unknown destination'')) (\<lambda>headsign.
     and_then (py_get stoptime ''trip'' (JObj [])) (\<lambda>trip.
     and_then (py_get trip ''routeShortName'' (JStr ''N/A'')) (\<lambda>route_short_name.
     and_then (format_time p service_day scheduled_dep) (\<lambda>scheduled_time.
     and_then (time_info scheduled_time delay) (\<lambda>info.
     Inr (info @ '' - Route '' @ py_str route_short_name @ '' to '' @ py_str headsign)))))))))"

definition format_arrival :: "platform \<Rightarrow> json \<Rightarrow> json \<Rightarrow> pyexn + string" where
  "format_arrival p stoptime service_day =
     and_then (py_get stoptime ''scheduledArrival'' (JInt 0)) (\<lambda>scheduled_arr.
     and_then (py_get stoptime ''realtimeArrival'' scheduled_arr) (\<lambda>realtime_arr.
     and_then (py_get stoptime ''arrivalDelay'' (JInt 0)) (\<lambda>delay.
     and_then (py_get stoptime ''headsign'' (JStr ''Unknown origin'')) (\<lambda>headsign.
     and_then (py_get stoptime ''trip'' (JObj [])) (\<lambda>trip.
     and_then (py_get trip ''routeShortName'' (JStr ''N/A'')) (\<lambda>route_short_name.
     and_then (format_time p service_day scheduled_arr) (\<lambda>scheduled_time.
     and_then (time_info scheduled_time delay) (\<lambda>info.
     Inr (info @ '' - Route '' @ py_str route_short_name @ '' from '' @ py_str headsign)))))))))"

subsection \<open>The operations\<close>

text \<open>
  Each operation builds its query, awaits \<^verbatim>\<open>make_graphql_request\<close> once and formats
  the answer. The query text decides nothing below, so an operation takes the outcome
  \<open>reply\<close> of its POST; \<open>limit\<close> of \<^verbatim>\<open>get_departures\<close> and \<open>start_time\<close> of
  \<^verbatim>\<open>get_timetable\<close> appear in the query only.
\<close>

definition get_departures :: "platform \<Rightarrow> http_outcome \<Rightarrow> string \<Rightarrow> int \<Rightarrow> pyexn + string" where
  "get_departures p reply stop_id limit =
     (let data = make_graphql_request reply;
          unable = ''Unable to fetch departures for stop ID: '' @ stop_id
      in if \<not> py_truthy data then Inr unable else
         and_then (py_contains ''data'' data) (\<lambda>has_data.
         if \<not> has_data then Inr unable else
         and_then (py_subscript_key data ''data'') (\<lambda>d.
         and_then (py_get d ''stop'' JNull) (\<lambda>stop.
         if \<not> py_truthy stop then Inr unable else
         and_then (py_subscript_key d ''stop'') (\<lambda>stop_data.
         and_then (py_get stop_data ''name'' (JStr ''Unknown stop'')) (\<lambda>stop_name.
         and_then (py_get stop_data ''stoptimesWithoutPatterns'' (JArr [])) (\<lambda>stoptimes.
         if \<not> py_truthy stoptimes
         then Inr (''No departures found for stop: '' @ py_str stop_name @ '' ('' @ stop_id @ '')'')
         else
         and_then (py_subscript_idx stoptimes 0) (\<lambda>first.
         and_then (py_get first ''serviceDay'' (JInt 0)) (\<lambda>service_day.
         and_then (py_iter stoptimes) (\<lambda>sts.
         and_then (map_raising (\<lambda>st. format_departure p st service_day) sts) (\<lambda>departures.
         Inr (''Departures from '' @ py_str stop_name @ '' ('' @ stop_id @ ''):\<newline>''
              @ join ''\<newline>'' departures))))))))))))"

definition get_timetable ::
  "platform \<Rightarrow> http_outcome \<Rightarrow> string \<Rightarrow> int \<Rightarrow> int \<Rightarrow> pyexn + string" where
  "get_timetable p reply stop_id start_time time_range =
     (let data = make_graphql_request reply;
          unable = ''Unable to fetch timetable for stop ID: '' @ stop_id
      in if \<not> py_truthy data then Inr unable else
         and_then (py_contains ''data'' data) (\<lambda>has_data.
         if \<not> has_data then Inr unable else
         and_then (py_subscript_key data ''data'') (\<lambda>d.
         and_then (py_get d ''stop'' JNull) (\<lambda>stop.
         if \<not> py_truthy stop then Inr unable else
         and_then (py_subscript_key d ''stop'') (\<lambda>stop_data.
         and_then (py_get stop_data ''name'' (JStr ''Unknown stop'')) (\<lambda>stop_name.
         and_then (py_get stop_data ''stoptimesWithoutPatterns'' (JArr [])) (\<lambda>stoptimes.
         if \<not> py_truthy stoptimes
         then Inr (''No timetable entries found for stop: '' @ py_str stop_name
                   @ '' ('' @ stop_id @ '')'')
         else
         and_then (py_subscript_idx stoptimes 0) (\<lambda>first.
         and_then (py_get first ''serviceDay'' (JInt 0)) (\<lambda>service_day.
         and_then (py_iter stoptimes) (\<lambda>sts.
         and_then (map_raising (\<lambda>st. format_departure p st service_day) sts) (\<lambda>departures.
         (let time_range_minutes = time_range div 60
          in Inr (''Timetable for '' @ py_str stop_name @ '' ('' @ stop_id @ '') - Next ''
                  @ py_str_int time_range_minutes @ '' minutes:\<newline>''
                  @ join ''\<newline>'' departures)))))))))))))"

text \<open>The body of the \<^verbatim>\<open>for stop in stops\<close> loop of \<^verbatim>\<open>find_stop\<close>: one entry.\<close>

definition format_stop :: "json \<Rightarrow> pyexn + string" where
  "format_stop stop =
     and_then (py_get stop ''gtfsId'' (JStr ''N/A'')) (\<lambda>stop_id.
     and_then (py_get stop ''name'' (JStr ''N/A'')) (\<lambda>stop_name.
     and_then (py_get stop ''code'' (JStr ''N/A'')) (\<lambda>code.
     and_then (py_get stop ''desc'' (JStr ''N/A'')) (\<lambda>desc.
     and_then (py_get stop ''lat'' (JStr ''N/A'')) (\<lambda>lat.
     and_then (py_get stop ''lon'' (JStr ''N/A'')) (\<lambda>lon.
     Inr (''ID: '' @ py_str stop_id @ ''\<newline>''
          @ ''  Name: '' @ py_str stop_name @ ''\<newline>''
          @ ''  Code: '' @ py_str code @ ''\<newline>''
          @ ''  Location: '' @ py_str desc @ ''\<newline>''
          @ ''  Coordinates: '' @ py_str lat @ '', '' @ py_str lon)))))))"

definition find_stop :: "http_outcome \<Rightarrow> string \<Rightarrow> int \<Rightarrow> pyexn + string" where
  "find_stop reply name limit =
     (let data = make_graphql_request reply;
          unable = ''Unable to search for stops with name: '' @ name
      in if \<not> py_truthy data then Inr unable else
         and_then (py_contains ''data'' data) (\<lambda>has_data.
         if \<not> has_data then Inr unable else
         and_then (py_subscript_key data ''data'') (\<lambda>d.
         and_then (py_get d ''stops'' (JArr [])) (\<lambda>found.
         if \<not> py_truthy found then Inr (''No stops found matching: '' @ name) else
         and_then (py_slice_to found limit) (\<lambda>stops.
         and_then (py_iter stops) (\<lambda>elems.
         and_then (map_raising format_stop elems) (\<lambda>results.
         and_then (py_len stops) (\<lambda>n.
         Inr (''Found '' @ py_str_int n @ '' stop(s) matching '' @ [CHR 0x27] @ name
              @ [CHR 0x27] @ '':\<newline>\<newline>''
              @ join ''\<newline>\<newline>'' results)))))))))"

section \<open>The completion forwarding adapter (\<^verbatim>\<open>draft_finnish.py\<close>)\<close>

text \<open>
  The process-wide configuration a call reads: the three environment variables
  \<^verbatim>\<open>VLLM_ENDPOINT\<close>, \<^verbatim>\<open>VLLM_MODEL\<close> and \<^verbatim>\<open>VLLM_API_KEY\<close> as \<^verbatim>\<open>os.getenv\<close>
  returns them (\<open>None\<close> when unset), and the two module constants fixed at import.
\<close>

record settings =
  vllm_endpoint :: "string option"
  vllm_model :: "string option"
  vllm_api_key :: "string option"
  DEFAULT_MODEL :: string
  DEFAULT_SYSTEM_PROMPT :: string

record chat_message =
  role :: string
  content :: string

text \<open>
  The JSON payload and the POST that carries it. The temperature is a float that the
  code passes through unread, so its type is a parameter.
\<close>

record 'f chat_payload =
  model :: string
  messages :: "chat_message list"
  temperature :: 'f
  max_tokens :: int

record 'f post_call =
  endpoint :: string
  payload :: "'f chat_payload"
  headers :: "(string \<times> string) list"

text \<open>
  \<^verbatim>\<open>_post_to_vllm\<close>: one POST through the HTTP client, \<^verbatim>\<open>raise_for_status()\<close>, then
  \<^verbatim>\<open>response.json()\<close>. The client is a function from the call to its outcome; the log
  of the calls made so far is passed through and grows by this call. Nothing is caught
  here: what the client raises, the helper raises.
\<close>

definition post_to_vllm ::
  "('f post_call \<Rightarrow> http_outcome) \<Rightarrow> 'f post_call list \<Rightarrow> 'f post_call
     \<Rightarrow> 'f post_call list \<times> (pyexn + json)" where
  "post_to_vllm client log call =
     (log @ [call],
      case client call of
        NotSent f \<Rightarrow> Inl (send_exception f)
      | TransportFailure msg \<Rightarrow> Inl (RequestError msg)
      | HttpResponse status body decoded \<Rightarrow>
          if 200 \<le> status \<and> status < 300
          then (case decoded of None \<Rightarrow> Inl JSONDecodeError | Some j \<Rightarrow> Inr j)
          else Inl (HTTPStatusError status body))"

text \<open>\<^verbatim>\<open>_build_messages\<close>: \<^verbatim>\<open>system_prompt or DEFAULT_SYSTEM_PROMPT\<close>, then the user message.\<close>

definition build_messages :: "settings \<Rightarrow> string \<Rightarrow> string option \<Rightarrow> chat_message list" where
  "build_messages cfg prompt system_prompt =
     (let system = (case system_prompt of
                      None \<Rightarrow> DEFAULT_SYSTEM_PROMPT cfg
                    | Some s \<Rightarrow> if s \<noteq> [] then s else DEFAULT_SYSTEM_PROMPT cfg)
      in (if system \<noteq> [] then [\<lparr>role = ''system'', content = system\<rparr>] else [])
         @ [\<lparr>role = ''user'', content = prompt\<rparr>])"

text \<open>The expression \<^verbatim>\<open>data["choices"][0]["message"]["content"]\<close>.\<close>

definition completion_path :: "json \<Rightarrow> pyexn + json" where
  "completion_path data =
     and_then (py_subscript_key data ''choices'') (\<lambda>choices.
     and_then (py_subscript_idx choices 0) (\<lambda>choice.
     and_then (py_subscript_key choice ''message'') (\<lambda>message.
     py_subscript_key message ''content'')))"

text \<open>
  The second \<^verbatim>\<open>try\<close> block and the \<^verbatim>\<open>return\<close> after it: \<^verbatim>\<open>KeyError\<close>,
  \<^verbatim>\<open>IndexError\<close> and \<^verbatim>\<open>TypeError\<close> of the path are caught;
  \<^verbatim>\<open>completion.strip()\<close> stands outside the \<^verbatim>\<open>try\<close> and is a method of strings only.
\<close>

definition extract_completion :: "json \<Rightarrow> pyexn + string" where
  "extract_completion data =
     (case completion_path data of
        Inl e \<Rightarrow>
          if e = KeyError \<or> e = IndexError \<or> e = TypeError
          then Inr (''Unexpected response format from vLLM: '' @ py_str data)
          else Inl e
      | Inr completion \<Rightarrow>
          (case completion of JStr s \<Rightarrow> Inr (py_strip s) | _ \<Rightarrow> Inl AttributeError))"

definition not_configured :: string where
  "not_configured =
     ''VLLM endpoint is not configured. Set the environment variable ''
     @ ''VLLM_ENDPOINT'' @ '' to the vLLM /v1/chat/completions URL.''"

text \<open>
  \<^verbatim>\<open>draft_finnish\<close>: the result is the log of the POSTs made and what the call
  returns (\<open>Inr\<close>) or raises (\<open>Inl\<close>).
\<close>

definition draft_finnish ::
  "settings \<Rightarrow> ('f post_call \<Rightarrow> http_outcome) \<Rightarrow> string \<Rightarrow> 'f \<Rightarrow> int \<Rightarrow> string option
     \<Rightarrow> 'f post_call list \<times> (pyexn + string)" where
  "draft_finnish cfg client prompt temp max_tok system_prompt =
     (case vllm_endpoint cfg of
        None \<Rightarrow> ([], Inr not_configured)
      | Some ep \<Rightarrow>
          if ep = [] then ([], Inr not_configured)
          else
            (let mdl = (case vllm_model cfg of None \<Rightarrow> DEFAULT_MODEL cfg | Some m \<Rightarrow> m);
                 hdrs = [(''Content-Type'', ''application/json'')]
                        @ (case vllm_api_key cfg of
                             None \<Rightarrow> []
                           | Some k \<Rightarrow> if k \<noteq> [] then [(''Authorization'', ''Bearer '' @ k)] else []);
                 call = \<lparr>endpoint = ep,
                         payload = \<lparr>model = mdl,
                                    messages = build_messages cfg prompt system_prompt,
                                    temperature = temp,
                                    max_tokens = max_tok\<rparr>,
                         headers = hdrs\<rparr>
             in (case post_to_vllm client [] call of
                   (log, Inl (HTTPStatusError status body)) \<Rightarrow>
                     (log, Inr (''vLLM returned an error: '' @ py_str_int status @ '' '' @ body))
                 | (log, Inl (RequestError msg)) \<Rightarrow>
                     (log, Inr (''Unable to reach vLLM endpoint at '' @ ep @ '': '' @ msg))
                 | (log, Inl e) \<Rightarrow> (log, Inl e)
                 | (log, Inr data) \<Rightarrow> (log, extract_completion data))))"

section \<open>The specification's notions\<close>

text \<open>
  The delay annotation as the specification words it: \<^verbatim>\<open>" (Delayed by {d}s)"\<close> when
  \<open>d > 0\<close>, \<^verbatim>\<open>" (Early by {|d|}s)"\<close> when \<open>d < 0\<close>, empty when \<open>d = 0\<close>.
\<close>

definition delay_annotation :: "int \<Rightarrow> string" where
  "delay_annotation d =
     (if d > 0 then '' (Delayed by '' @ py_str_int d @ ''s)''
      else if d < 0 then '' (Early by '' @ py_str_int (abs d) @ ''s)''
      else [])"

text \<open>
  Two values differ at most in the field \<open>key\<close>: two dictionaries that agree on every
  other key, or two equal values.
\<close>

definition differ_only_at :: "string \<Rightarrow> json \<Rightarrow> json \<Rightarrow> bool" where
  "differ_only_at key a b =
     (case (a, b) of
        (JObj fa, JObj fb) \<Rightarrow> (\<forall>k. k \<noteq> key \<longrightarrow> map_of fa k = map_of fb k)
      | _ \<Rightarrow> a = b)"

section \<open>Basic facts\<close>

lemma nat_digits_small: "n < 10 \<Longrightarrow> nat_digits n = [digit_char n]"
  by (simp add: nat_digits.simps)

lemma nat_digits_big:
  "10 \<le> n \<Longrightarrow> nat_digits n = nat_digits (n div 10) @ [digit_char (n mod 10)]"
  by (simp add: nat_digits.simps)

lemma and_then_Inr [simp]: "and_then (Inr x) f = f x"
  by (simp add: and_then_def)

lemma and_then_Inl [simp]: "and_then (Inl e) f = Inl e"
  by (simp add: and_then_def)

lemma py_get_JObj [simp]: "py_get (JObj kvs) k d = Inr (dict_get kvs k d)"
  by (simp add: py_get_def)

lemma time_info_int: "time_info t (JInt d) = Inr (t @ delay_annotation d)"
  by (simp add: time_info_def delay_annotation_def py_num_def py_str_def)

text \<open>Unfolding sets for evaluating the operations on concrete inputs.\<close>

lemmas eval_line =
  format_departure_def dict_get_def format_time_def py_num_def fromtimestamp_def
  utc_platform_def strftime_HMS_def pad2_def digit_char_def time_info_def py_str_def
  py_str_int_def nat_digits_small nat_digits_big

lemmas eval_find_stop =
  find_stop_def make_graphql_request_def Let_def py_contains_def py_subscript_key_def
  dict_get_def py_slice_to_def seq_slice_to_def py_iter_def py_len_def format_stop_def
  py_str_def py_str_int_def nat_digits_small digit_char_def

section \<open>The claims\<close>

subsection \<open>C2: the delay annotation\<close>

text \<open>
  C2. For every integer delay \<open>d\<close>, the annotation that follows the rendered time in a
  formatted stop-time line is \<^verbatim>\<open>" (Delayed by {d}s)"\<close> when \<open>d > 0\<close>,
  \<^verbatim>\<open>" (Early by {|d|}s)"\<close> when \<open>d < 0\<close> and empty when \<open>d = 0\<close>, in the departure
  formatter (field \<^verbatim>\<open>departureDelay\<close>) and in the arrival formatter (field
  \<^verbatim>\<open>arrivalDelay\<close>) alike. Here \<open>td\<close> and \<open>ta\<close> are the rendered scheduled times and
  \<open>r\<close> is the route short name read from the trip.
\<close>

theorem delay_annotation_both_formatters:
  assumes "dict_get st ''departureDelay'' (JInt 0) = JInt d"
      and "dict_get st ''arrivalDelay'' (JInt 0) = JInt a"
      and "py_get (dict_get st ''trip'' (JObj [])) ''routeShortName'' (JStr ''N/A'') = Inr r"
      and "format_time p sd (dict_get st ''scheduledDeparture'' (JInt 0)) = Inr td"
      and "format_time p sd (dict_get st ''scheduledArrival'' (JInt 0)) = Inr ta"
  shows "format_departure p (JObj st) sd =
           Inr (td @ delay_annotation d @ '' - Route '' @ py_str r @ '' to ''
                @ py_str (dict_get st ''headsign'' (JStr ''Unknown destination'')))
       \<and> format_arrival p (JObj st) sd =
           Inr (ta @ delay_annotation a @ '' - Route '' @ py_str r @ '' from ''
                @ py_str (dict_get st ''headsign'' (JStr ''Unknown origin'')))"
  using assms by (simp add: format_departure_def format_arrival_def time_info_int)

theorem delay_annotation_both_formatters_witness:
  "format_departure utc_platform
     (JObj [(''scheduledDeparture'', JInt 600), (''departureDelay'', JInt (- 45)),
            (''scheduledArrival'', JInt 540), (''arrivalDelay'', JInt 30),
            (''headsign'', JStr ''X''), (''trip'', JObj [(''routeShortName'', JStr ''5'')])])
     (JInt 0) = Inr ''00:10:00 (Early by 45s) - Route 5 to X''
   \<and> format_arrival utc_platform
     (JObj [(''scheduledDeparture'', JInt 600), (''departureDelay'', JInt (- 45)),
            (''scheduledArrival'', JInt 540), (''arrivalDelay'', JInt 30),
            (''headsign'', JStr ''X''), (''trip'', JObj [(''routeShortName'', JStr ''5'')])])
     (JInt 0) = Inr ''00:09:00 (Delayed by 30s) - Route 5 from X''"
  using delay_annotation_both_formatters
    [of "[(''scheduledDeparture'', JInt 600), (''departureDelay'', JInt (- 45)),
          (''scheduledArrival'', JInt 540), (''arrivalDelay'', JInt 30),
          (''headsign'', JStr ''X''), (''trip'', JObj [(''routeShortName'', JStr ''5'')])]"
        "- 45" 30 "JStr ''5''" utc_platform "JInt 0" "''00:10:00''" "''00:09:00''"]
  by (simp add: dict_get_def format_time_def py_num_def fromtimestamp_def utc_platform_def
      strftime_HMS_def pad2_def digit_char_def py_str_def py_str_int_def nat_digits_small
      nat_digits_big delay_annotation_def)

subsection \<open>C3: wall-clock rendering\<close>

text \<open>
  The claim as stated fails: a sum that \<^verbatim>\<open>datetime.fromtimestamp\<close> cannot represent
  makes \<^verbatim>\<open>format_time\<close> raise. On a platform with the full range of
  \<^verbatim>\<open>datetime\<close> (years 1 to 9999), service day \<open>0\<close> with offset \<open>10^18\<close> is such a
  pair.
\<close>

theorem format_time_out_of_range:
  "format_time utc_platform (JInt 0) (JInt 1000000000000000000) = Inl ValueError"
  by (simp add: format_time_def py_num_def fromtimestamp_def utc_platform_def)

text \<open>
  C3, amended. For every pair (service day, offset) whose sum the platform's
  \<^verbatim>\<open>fromtimestamp\<close> can represent, \<^verbatim>\<open>format_time\<close> returns the local wall-clock
  time of the instant \<open>sd + off\<close> as \<^verbatim>\<open>HH:MM:SS\<close>: with \<open>w\<close> the second of the
  local day, the hour \<open>w div 3600\<close> (below 24), the minute \<open>w mod 3600 div 60\<close> and the
  second \<open>w mod 60\<close> (both below 60), each written with two decimal digits (\<open>pad2\<close>).
  For every pair whose sum it cannot represent, \<^verbatim>\<open>format_time\<close> raises.
\<close>

theorem format_time_local_clock:
  assumes "w = nat ((sd + off + utcoffset p (sd + off)) mod 86400)"
  shows "(representable p (sd + off) \<longrightarrow>
            format_time p (JInt sd) (JInt off) =
              Inr (pad2 (w div 3600) @ '':'' @ pad2 (w mod 3600 div 60) @ '':''
                   @ pad2 (w mod 60))
            \<and> w div 3600 < 24 \<and> w mod 3600 div 60 < 60 \<and> w mod 60 < 60)
       \<and> (\<not> representable p (sd + off) \<longrightarrow>
            format_time p (JInt sd) (JInt off) = Inl ValueError)"
proof (intro conjI impI)
  assume inside: "representable p (sd + off)"
  show "format_time p (JInt sd) (JInt off) =
      Inr (pad2 (w div 3600) @ '':'' @ pad2 (w mod 3600 div 60) @ '':'' @ pad2 (w mod 60))"
    using assms inside
    by (simp add: format_time_def py_num_def fromtimestamp_def strftime_HMS_def Let_def)
next
  have "w < 86400"
    using assms by simp
  then show "w div 3600 < 24"
    by simp
next
  show "w mod 3600 div 60 < 60"
    by (simp add: div_less_iff_less_mult)
next
  show "w mod 60 < 60"
    by simp
next
  assume "\<not> representable p (sd + off)"
  then show "format_time p (JInt sd) (JInt off) = Inl ValueError"
    by (simp add: format_time_def py_num_def fromtimestamp_def)
qed

text \<open>
  The specification's example, service day \<open>0\<close> and offset \<open>3661\<close>: \<^verbatim>\<open>01:01:01\<close>
  where local time is UTC, \<^verbatim>\<open>03:01:01\<close> where it is two hours ahead; and a pair
  outside the range, on which the call raises.
\<close>

theorem format_time_local_clock_witness:
  "format_time utc_platform (JInt 0) (JInt 3661) = Inr ''01:01:01''
   \<and> format_time \<lparr>utcoffset = (\<lambda>t. 7200), representable = (\<lambda>t. True)\<rparr>
         (JInt 0) (JInt 3661) = Inr ''03:01:01''
   \<and> format_time utc_platform (JInt (- 62135596800)) (JInt (- 1)) = Inl ValueError"
  using format_time_local_clock [of 3661 0 3661 utc_platform]
    format_time_local_clock
      [of 10861 0 3661 "\<lparr>utcoffset = (\<lambda>t. 7200), representable = (\<lambda>t. True)\<rparr>"]
    format_time_local_clock [of 86399 "- 62135596800" "- 1" utc_platform]
  by (simp add: utc_platform_def pad2_def digit_char_def)

subsection \<open>C4: the departure line\<close>



subsection \<open>C10: the realtime fields are read and never rendered\<close>

text \<open>What each formatter reads of a stop-time dictionary: four keys.\<close>

lemma format_departure_reads:
  assumes "map_of x ''scheduledDeparture'' = map_of y ''scheduledDeparture''"
      and "map_of x ''departureDelay'' = map_of y ''departureDelay''"
      and "map_of x ''headsign'' = map_of y ''headsign''"
      and "map_of x ''trip'' = map_of y ''trip''"
  shows "format_departure p (JObj x) sd = format_departure p (JObj y) sd"
  using assms by (simp add: format_departure_def dict_get_def)

lemma format_arrival_reads:
  assumes "map_of x ''scheduledArrival'' = map_of y ''scheduledArrival''"
      and "map_of x ''arrivalDelay'' = map_of y ''arrivalDelay''"
      and "map_of x ''headsign'' = map_of y ''headsign''"
      and "map_of x ''trip'' = map_of y ''trip''"
  shows "format_arrival p (JObj x) sd = format_arrival p (JObj y) sd"
  using assms by (simp add: format_arrival_def dict_get_def)

lemma differ_only_at_JObj:
  "differ_only_at key (JObj x) (JObj y) = (\<forall>k. k \<noteq> key \<longrightarrow> map_of x k = map_of y k)"
  by (simp add: differ_only_at_def)

lemma differ_only_at_cases:
  assumes "differ_only_at key a b"
  shows "a = b \<or>
         (\<exists>x y. a = JObj x \<and> b = JObj y \<and> (\<forall>k. k \<noteq> key \<longrightarrow> map_of x k = map_of y k))"
  using assms by (cases a; cases b) (simp_all add: differ_only_at_def)

text \<open>
  C10. Two stop-time records that differ only in \<^verbatim>\<open>realtimeDeparture\<close> (in its value or
  in its presence) get the same result from \<^verbatim>\<open>format_departure\<close>, and two that differ
  only in \<^verbatim>\<open>realtimeArrival\<close> the same result from \<^verbatim>\<open>format_arrival\<close>, whatever the
  platform and the service day.
\<close>

theorem realtime_fields_not_rendered:
  assumes "differ_only_at ''realtimeDeparture'' a a'"
      and "differ_only_at ''realtimeArrival'' b b'"
  shows "format_departure p a sd = format_departure p a' sd
       \<and> format_arrival p b sd = format_arrival p b' sd"
proof
  show "format_departure p a sd = format_departure p a' sd"
    using differ_only_at_cases [OF assms(1)]
    by (auto intro!: format_departure_reads)
  show "format_arrival p b sd = format_arrival p b' sd"
    using differ_only_at_cases [OF assms(2)]
    by (auto intro!: format_arrival_reads)
qed

theorem realtime_fields_not_rendered_witness:
  "format_departure utc_platform
     (JObj [(''scheduledDeparture'', JInt 600), (''realtimeDeparture'', JInt 630),
            (''departureDelay'', JInt 30)]) (JInt 0)
   = format_departure utc_platform
     (JObj [(''scheduledDeparture'', JInt 600), (''realtimeDeparture'', JInt 86399),
            (''departureDelay'', JInt 30)]) (JInt 0)
   \<and> format_arrival utc_platform
     (JObj [(''scheduledArrival'', JInt 540), (''arrivalDelay'', JInt 0)]) (JInt 0)
   = format_arrival utc_platform
     (JObj [(''realtimeArrival'', JInt 7), (''scheduledArrival'', JInt 540),
            (''arrivalDelay'', JInt 0)]) (JInt 0)"
  using realtime_fields_not_rendered
    [of "JObj [(''scheduledDeparture'', JInt 600), (''realtimeDeparture'', JInt 630),
            (''departureDelay'', JInt 30)]"
        "JObj [(''scheduledDeparture'', JInt 600), (''realtimeDeparture'', JInt 86399),
            (''departureDelay'', JInt 30)]"
        "JObj [(''scheduledArrival'', JInt 540), (''arrivalDelay'', JInt 0)]"
        "JObj [(''realtimeArrival'', JInt 7), (''scheduledArrival'', JInt 540),
            (''arrivalDelay'', JInt 0)]" utc_platform "JInt 0"]
  by (simp add: differ_only_at_JObj)

subsection \<open>C5: no endpoint, no network call\<close>

text \<open>
  C5. When \<^verbatim>\<open>VLLM_ENDPOINT\<close> is unset or empty, \<^verbatim>\<open>draft_finnish\<close> returns the
  configuration-error string that names the variable, and the log of POSTs is empty,
  whatever the HTTP client would have answered and whatever the arguments.
\<close>

theorem no_endpoint_no_call:
  assumes "vllm_endpoint cfg = None \<or> vllm_endpoint cfg = Some []"
  shows "draft_finnish cfg client prompt temp max_tok system_prompt =
           ([], Inr (''VLLM endpoint is not configured. Set the environment variable ''
                     @ ''VLLM_ENDPOINT to the vLLM /v1/chat/completions URL.''))"
  using assms by (auto simp: draft_finnish_def not_configured_def)

theorem no_endpoint_no_call_witness:
  "draft_finnish
     \<lparr>vllm_endpoint = None, vllm_model = Some ''mock-model'', vllm_api_key = None,
      DEFAULT_MODEL = ''meta-llama/Llama-3.1-8B-Instruct'', DEFAULT_SYSTEM_PROMPT = []\<rparr>
     (\<lambda>call. HttpResponse 200 [] (Some (JObj []))) ''Hei maailma!'' ''0.7'' 1024 None =
     ([], Inr (''VLLM endpoint is not configured. Set the environment variable ''
               @ ''VLLM_ENDPOINT to the vLLM /v1/chat/completions URL.''))"
  using no_endpoint_no_call
    [of "\<lparr>vllm_endpoint = None, vllm_model = Some ''mock-model'', vllm_api_key = None,
          DEFAULT_MODEL = ''meta-llama/Llama-3.1-8B-Instruct'', DEFAULT_SYSTEM_PROMPT = []\<rparr>"
        "\<lambda>call. HttpResponse 200 [] (Some (JObj []))" "''Hei maailma!''" "''0.7''" 1024 None]
  by simp

subsection \<open>Reading a successful response\<close>

lemma map_of_Some_nonempty: "map_of kvs k = Some v \<Longrightarrow> kvs \<noteq> []"
  by (cases kvs) simp_all

lemma py_contains_JObj_key: "map_of kvs k = Some v \<Longrightarrow> py_contains k (JObj kvs) = Inr True"
  by (simp add: py_contains_def)

lemma py_subscript_key_JObj: "map_of kvs k = Some v \<Longrightarrow> py_subscript_key (JObj kvs) k = Inr v"
  by (simp add: py_subscript_key_def)

lemma dict_get_Some: "map_of kvs k = Some v \<Longrightarrow> dict_get kvs k d = v"
  by (simp add: dict_get_def)

lemma seq_index_0: "seq_index (x # xs) 0 = Inr x"
  by (simp add: seq_index_def)

subsection \<open>C8: an empty list of stop-times\<close>

text \<open>
  C8. When the response holds a stop (a dictionary that is not empty) whose list of
  stop-times is empty, \<^verbatim>\<open>get_departures\<close> returns
  \<^verbatim>\<open>"No departures found for stop: {name} ({stop_id})"\<close> and \<^verbatim>\<open>get_timetable\<close> returns
  \<^verbatim>\<open>"No timetable entries found for stop: {name} ({stop_id})"\<close>; neither raises.
\<close>

theorem empty_stoptimes_message:
  assumes "make_graphql_request reply = JObj root"
      and "map_of root ''data'' = Some (JObj d)"
      and "map_of d ''stop'' = Some (JObj s)"
      and "s \<noteq> []"
      and "dict_get s ''stoptimesWithoutPatterns'' (JArr []) = JArr []"
      and "stop_name = py_str (dict_get s ''name'' (JStr ''Unknown stop''))"
  shows "get_departures p reply stop_id limit =
           Inr (''No departures found for stop: '' @ stop_name @ '' ('' @ stop_id @ '')'')
       \<and> get_timetable p reply stop_id start_time time_range =
           Inr (''No timetable entries found for stop: '' @ stop_name @ '' ('' @ stop_id @ '')'')"
  using assms
  by (simp add: get_departures_def get_timetable_def Let_def map_of_Some_nonempty
      py_contains_JObj_key py_subscript_key_JObj dict_get_Some)

theorem empty_stoptimes_message_witness:
  "get_departures utc_platform
     (HttpResponse 200 []
        (Some (JObj [(''data'', JObj [(''stop'', JObj [(''name'', JStr ''Arkadian puisto''),
           (''stoptimesWithoutPatterns'', JArr [])])])])))
     ''HSL:1040129'' 10 = Inr ''No departures found for stop: Arkadian puisto (HSL:1040129)''
   \<and> get_timetable utc_platform
     (HttpResponse 200 []
        (Some (JObj [(''data'', JObj [(''stop'', JObj [(''name'', JStr ''Arkadian puisto''),
           (''stoptimesWithoutPatterns'', JArr [])])])])))
     ''HSL:1040129'' 0 3600 =
       Inr ''No timetable entries found for stop: Arkadian puisto (HSL:1040129)''"
  using empty_stoptimes_message
    [of "HttpResponse 200 []
        (Some (JObj [(''data'', JObj [(''stop'', JObj [(''name'', JStr ''Arkadian puisto''),
           (''stoptimesWithoutPatterns'', JArr [])])])]))"
        "[(''data'', JObj [(''stop'', JObj [(''name'', JStr ''Arkadian puisto''),
           (''stoptimesWithoutPatterns'', JArr [])])])]"
        "[(''stop'', JObj [(''name'', JStr ''Arkadian puisto''),
           (''stoptimesWithoutPatterns'', JArr [])])]"
        "[(''name'', JStr ''Arkadian puisto''), (''stoptimesWithoutPatterns'', JArr [])]"
        "''Arkadian puisto''" utc_platform "''HSL:1040129''" 10 0 3600]
  by (simp add: make_graphql_request_def dict_get_def py_str_def)

subsection \<open>C9: one service day for the batch\<close>

lemma format_departure_ignores_serviceDay:
  assumes "differ_only_at ''serviceDay'' a b"
  shows "format_departure p a sd = format_departure p b sd"
  using differ_only_at_cases [OF assms] by (auto intro!: format_departure_reads)

lemma map_raising_format_departure_cong:
  assumes "list_all2 (differ_only_at ''serviceDay'') xs ys"
  shows "map_raising (\<lambda>st. format_departure p st sd) xs =
         map_raising (\<lambda>st. format_departure p st sd) ys"
  using assms
proof (induction xs ys rule: list_all2_induct)
  case Nil
  show ?case by simp
next
  case (Cons x xs y ys)
  then show ?case
    by (simp add: format_departure_ignores_serviceDay [of x y] split: sum.splits)
qed

text \<open>
  C9. For a batch of stop-times that is not empty, both operations format every entry
  with the \<^verbatim>\<open>serviceDay\<close> of the first entry (\<open>0\<close> when the first entry has none):
  the result is that of formatting the batch with this service day, and it stays the
  same when the later entries get any other \<^verbatim>\<open>serviceDay\<close> fields (\<open>others'\<close>).
\<close>

theorem service_day_of_first_stoptime:
  assumes "make_graphql_request reply = JObj root"
      and "map_of root ''data'' = Some (JObj d)"
      and "map_of d ''stop'' = Some (JObj s)"
      and "map_of s ''stoptimesWithoutPatterns'' = Some (JArr (JObj first # others))"
      and "list_all2 (differ_only_at ''serviceDay'') others others'"
      and "service_day = dict_get first ''serviceDay'' (JInt 0)"
      and "stop_name = py_str (dict_get s ''name'' (JStr ''Unknown stop''))"
  shows "get_departures p reply stop_id limit =
           and_then
             (map_raising (\<lambda>st. format_departure p st service_day) (JObj first # others'))
             (\<lambda>departures.
                Inr (''Departures from '' @ stop_name @ '' ('' @ stop_id @ ''):\<newline>''
                     @ join ''\<newline>'' departures))
       \<and> get_timetable p reply stop_id start_time time_range =
           and_then
             (map_raising (\<lambda>st. format_departure p st service_day) (JObj first # others'))
             (\<lambda>departures.
                Inr (''Timetable for '' @ stop_name @ '' ('' @ stop_id @ '') - Next ''
                     @ py_str_int (time_range div 60) @ '' minutes:\<newline>''
                     @ join ''\<newline>'' departures))"
proof -
  have lines:
    "map_raising (\<lambda>st. format_departure p st service_day) (JObj first # others) =
     map_raising (\<lambda>st. format_departure p st service_day) (JObj first # others')"
    using map_raising_format_departure_cong [OF assms(5), of p service_day]
    by (simp split: sum.splits)
  have s: "s \<noteq> []"
    using assms(4) by (rule map_of_Some_nonempty)
  have dep: "get_departures p reply stop_id limit =
      and_then (map_raising (\<lambda>st. format_departure p st service_day) (JObj first # others))
        (\<lambda>departures.
           Inr (''Departures from '' @ stop_name @ '' ('' @ stop_id @ ''):\<newline>''
                @ join ''\<newline>'' departures))"
    using assms(1-4,6,7) s
    by (simp add: get_departures_def Let_def map_of_Some_nonempty py_contains_JObj_key
        py_subscript_key_JObj dict_get_Some py_subscript_idx_def seq_index_0 py_iter_def
        del: map_raising.simps)
  have tt: "get_timetable p reply stop_id start_time time_range =
      and_then (map_raising (\<lambda>st. format_departure p st service_day) (JObj first # others))
        (\<lambda>departures.
           Inr (''Timetable for '' @ stop_name @ '' ('' @ stop_id @ '') - Next ''
                @ py_str_int (time_range div 60) @ '' minutes:\<newline>''
                @ join ''\<newline>'' departures))"
    using assms(1-4,6,7) s
    by (simp add: get_timetable_def Let_def map_of_Some_nonempty py_contains_JObj_key
        py_subscript_key_JObj dict_get_Some py_subscript_idx_def seq_index_0 py_iter_def
        del: map_raising.simps)
  show ?thesis
    unfolding dep tt lines by simp
qed

theorem service_day_of_first_stoptime_witness:
  "get_departures utc_platform
     (HttpResponse 200 []
        (Some (JObj [(''data'', JObj [(''stop'', JObj [(''name'', JStr ''Kamppi''),
           (''stoptimesWithoutPatterns'', JArr
              [JObj [(''scheduledDeparture'', JInt 600), (''serviceDay'', JInt 3600),
                     (''headsign'', JStr ''A'')],
               JObj [(''scheduledDeparture'', JInt 1200), (''serviceDay'', JInt 86400),
                     (''headsign'', JStr ''B'')]])])])])))
     ''HSL:1'' 10 =
     Inr ''Departures from Kamppi (HSL:1):\<newline>01:10:00 - Route N/A to A\<newline>01:20:00 - Route N/A to B''
   \<and> get_timetable utc_platform
     (HttpResponse 200 []
        (Some (JObj [(''data'', JObj [(''stop'', JObj [(''name'', JStr ''Kamppi''),
           (''stoptimesWithoutPatterns'', JArr
              [JObj [(''scheduledDeparture'', JInt 600), (''serviceDay'', JInt 3600),
                     (''headsign'', JStr ''A'')],
               JObj [(''scheduledDeparture'', JInt 1200), (''serviceDay'', JInt 86400),
                     (''headsign'', JStr ''B'')]])])])])))
     ''HSL:1'' 0 3600 =
     Inr ''Timetable for Kamppi (HSL:1) - Next 60 minutes:\<newline>01:10:00 - Route N/A to A\<newline>01:20:00 - Route N/A to B''"
  using service_day_of_first_stoptime
    [where reply = "HttpResponse 200 []
        (Some (JObj [(''data'', JObj [(''stop'', JObj [(''name'', JStr ''Kamppi''),
           (''stoptimesWithoutPatterns'', JArr
              [JObj [(''scheduledDeparture'', JInt 600), (''serviceDay'', JInt 3600),
                     (''headsign'', JStr ''A'')],
               JObj [(''scheduledDeparture'', JInt 1200), (''serviceDay'', JInt 86400),
                     (''headsign'', JStr ''B'')]])])])]))"
       and root = "[(''data'', JObj [(''stop'', JObj [(''name'', JStr ''Kamppi''),
           (''stoptimesWithoutPatterns'', JArr
              [JObj [(''scheduledDeparture'', JInt 600), (''serviceDay'', JInt 3600),
                     (''headsign'', JStr ''A'')],
               JObj [(''scheduledDeparture'', JInt 1200), (''serviceDay'', JInt 86400),
                     (''headsign'', JStr ''B'')]])])])]"
       and d = "[(''stop'', JObj [(''name'', JStr ''Kamppi''),
           (''stoptimesWithoutPatterns'', JArr
              [JObj [(''scheduledDeparture'', JInt 600), (''serviceDay'', JInt 3600),
                     (''headsign'', JStr ''A'')],
               JObj [(''scheduledDeparture'', JInt 1200), (''serviceDay'', JInt 86400),
                     (''headsign'', JStr ''B'')]])])]"
       and s = "[(''name'', JStr ''Kamppi''),
           (''stoptimesWithoutPatterns'', JArr
              [JObj [(''scheduledDeparture'', JInt 600), (''serviceDay'', JInt 3600),
                     (''headsign'', JStr ''A'')],
               JObj [(''scheduledDeparture'', JInt 1200), (''serviceDay'', JInt 86400),
                     (''headsign'', JStr ''B'')]])]"
       and first = "[(''scheduledDeparture'', JInt 600), (''serviceDay'', JInt 3600),
                     (''headsign'', JStr ''A'')]"
       and others = "[JObj [(''scheduledDeparture'', JInt 1200), (''serviceDay'', JInt 86400),
                     (''headsign'', JStr ''B'')]]"
       and others' = "[JObj [(''scheduledDeparture'', JInt 1200), (''headsign'', JStr ''B'')]]"
       and service_day = "JInt 3600" and stop_name = "''Kamppi''" and p = utc_platform
       and stop_id = "''HSL:1''" and limit = 10 and start_time = 0 and time_range = 3600]
  by (simp add: make_graphql_request_def differ_only_at_JObj eval_line)

subsection \<open>C7: \<^verbatim>\<open>find_stop\<close> on no match and on more matches than the limit\<close>

lemma format_stop_JObj: "\<exists>entry. format_stop (JObj f) = Inr entry"
  by (simp add: format_stop_def)

lemma map_raising_format_stop:
  assumes "\<forall>x \<in> set xs. \<exists>f. x = JObj f"
  shows "\<exists>results. map_raising format_stop xs = Inr results \<and> length results = length xs"
  using assms
proof (induction xs)
  case Nil
  show ?case by simp
next
  case (Cons x xs)
  then obtain f where "x = JObj f"
    by auto
  then obtain entry where "format_stop x = Inr entry"
    using format_stop_JObj by blast
  moreover obtain results where "map_raising format_stop xs = Inr results"
    and "length results = length xs"
    using Cons by auto
  ultimately show ?case
    by simp
qed

text \<open>
  The claim as stated fails for a negative limit: \<^verbatim>\<open>stops[:limit]\<close> then drops
  entries from the end. With three stops and \<open>limit = -1\<close> the list has more than
  \<open>limit\<close> entries, and two entries are returned.
\<close>

theorem find_stop_negative_limit:
  "find_stop
     (HttpResponse 200 []
        (Some (JObj [(''data'', JObj [(''stops'', JArr
           [JObj [(''gtfsId'', JStr ''HSL:1'')], JObj [(''gtfsId'', JStr ''HSL:2'')],
            JObj [(''gtfsId'', JStr ''HSL:3'')]])])])))
     ''a'' (- 1) =
   Inr (''Found 2 stop(s) matching '' @ [CHR 0x27] @ ''a'' @ [CHR 0x27] @ '':\<newline>\<newline>''
        @ ''ID: HSL:1\<newline>  Name: N/A\<newline>  Code: N/A\<newline>  Location: N/A\<newline>  Coordinates: N/A, N/A''
        @ ''\<newline>\<newline>''
        @ ''ID: HSL:2\<newline>  Name: N/A\<newline>  Code: N/A\<newline>  Location: N/A\<newline>  Coordinates: N/A, N/A'')"
  by (simp add: eval_find_stop)

text \<open>
  C7, amended. For a response with a \<^verbatim>\<open>data\<close> field whose \<^verbatim>\<open>stops\<close> are a list of
  dictionaries: when the list is empty the result is \<^verbatim>\<open>"No stops found matching: {name}"\<close>;
  when the list has more than \<open>limit\<close> entries and \<open>limit\<close> is not negative, the first
  \<open>limit\<close> stops are formatted, exactly \<open>limit\<close> entries are returned and the header
  counts \<open>limit\<close>.
\<close>

theorem find_stop_empty_and_truncated:
  assumes "make_graphql_request reply = JObj root"
      and "map_of root ''data'' = Some (JObj d)"
      and "dict_get d ''stops'' (JArr []) = JArr stops"
      and "\<forall>x \<in> set stops. \<exists>f. x = JObj f"
  shows "(stops = [] \<longrightarrow> find_stop reply name limit = Inr (''No stops found matching: '' @ name))
       \<and> (0 \<le> limit \<and> limit < int (length stops) \<longrightarrow>
            (\<exists>results.
               map_raising format_stop (take (nat limit) stops) = Inr results
               \<and> int (length results) = limit
               \<and> find_stop reply name limit =
                   Inr (''Found '' @ py_str_int limit @ '' stop(s) matching '' @ [CHR 0x27]
                        @ name @ [CHR 0x27] @ '':\<newline>\<newline>''
                        @ join ''\<newline>\<newline>'' results)))"
proof (intro conjI impI)
  assume "stops = []"
  then show "find_stop reply name limit = Inr (''No stops found matching: '' @ name)"
    using assms(1-3)
    by (simp add: find_stop_def Let_def map_of_Some_nonempty py_contains_JObj_key
        py_subscript_key_JObj)
next
  assume limit: "0 \<le> limit \<and> limit < int (length stops)"
  then have nonempty: "stops \<noteq> []"
    by auto
  have "\<forall>x \<in> set (take (nat limit) stops). \<exists>f. x = JObj f"
    using assms(4) by (auto dest: in_set_takeD)
  then obtain results where results:
    "map_raising format_stop (take (nat limit) stops) = Inr results"
    "length results = length (take (nat limit) stops)"
    using map_raising_format_stop by blast
  have len: "int (length (take (nat limit) stops)) = limit"
    using limit by (auto simp: min_def)
  have slice: "py_slice_to (JArr stops) limit = Inr (JArr (take (nat limit) stops))"
    using limit by (simp add: py_slice_to_def seq_slice_to_def)
  have n: "py_len (JArr (take (nat limit) stops)) = Inr limit"
    using len by (simp add: py_len_def)
  have "find_stop reply name limit =
      Inr (''Found '' @ py_str_int limit @ '' stop(s) matching '' @ [CHR 0x27]
           @ name @ [CHR 0x27] @ '':\<newline>\<newline>'' @ join ''\<newline>\<newline>'' results)"
    using assms(1-3) nonempty results(1)
    by (simp add: find_stop_def Let_def map_of_Some_nonempty py_contains_JObj_key
        py_subscript_key_JObj slice n py_iter_def)
  then show "\<exists>results.
      map_raising format_stop (take (nat limit) stops) = Inr results
      \<and> int (length results) = limit
      \<and> find_stop reply name limit =
          Inr (''Found '' @ py_str_int limit @ '' stop(s) matching '' @ [CHR 0x27]
               @ name @ [CHR 0x27] @ '':\<newline>\<newline>''
               @ join ''\<newline>\<newline>'' results)"
    using results len by auto
qed

theorem find_stop_empty_and_truncated_witness:
  "find_stop (HttpResponse 200 [] (Some (JObj [(''data'', JObj [(''stops'', JArr [])])])))
     ''a'' 10 = Inr ''No stops found matching: a''
   \<and> find_stop
     (HttpResponse 200 []
        (Some (JObj [(''data'', JObj [(''stops'', JArr
           [JObj [(''gtfsId'', JStr ''HSL:1'')], JObj [(''gtfsId'', JStr ''HSL:2'')],
            JObj [(''gtfsId'', JStr ''HSL:3'')]])])])))
     ''a'' 2 =
   Inr (''Found 2 stop(s) matching '' @ [CHR 0x27] @ ''a'' @ [CHR 0x27] @ '':\<newline>\<newline>''
        @ ''ID: HSL:1\<newline>  Name: N/A\<newline>  Code: N/A\<newline>  Location: N/A\<newline>  Coordinates: N/A, N/A''
        @ ''\<newline>\<newline>''
        @ ''ID: HSL:2\<newline>  Name: N/A\<newline>  Code: N/A\<newline>  Location: N/A\<newline>  Coordinates: N/A, N/A'')"
proof -
  have none: "find_stop (HttpResponse 200 [] (Some (JObj [(''data'', JObj [(''stops'', JArr [])])])))
     ''a'' 10 = Inr ''No stops found matching: a''"
    using find_stop_empty_and_truncated
      [where reply = "HttpResponse 200 [] (Some (JObj [(''data'', JObj [(''stops'', JArr [])])]))"
         and root = "[(''data'', JObj [(''stops'', JArr [])])]"
         and d = "[(''stops'', JArr [])]" and stops = "[]" and name = "''a''" and limit = 10]
    by (simp add: make_graphql_request_def dict_get_def)
  have some: "\<exists>results.
      map_raising format_stop
        (take (nat 2) [JObj [(''gtfsId'', JStr ''HSL:1'')], JObj [(''gtfsId'', JStr ''HSL:2'')],
            JObj [(''gtfsId'', JStr ''HSL:3'')]]) = Inr results
      \<and> int (length results) = 2
      \<and> find_stop
           (HttpResponse 200 []
              (Some (JObj [(''data'', JObj [(''stops'', JArr
                 [JObj [(''gtfsId'', JStr ''HSL:1'')], JObj [(''gtfsId'', JStr ''HSL:2'')],
                  JObj [(''gtfsId'', JStr ''HSL:3'')]])])])))
           ''a'' 2 =
          Inr (''Found '' @ py_str_int 2 @ '' stop(s) matching '' @ [CHR 0x27] @ ''a''
               @ [CHR 0x27] @ '':\<newline>\<newline>'' @ join ''\<newline>\<newline>'' results)"
    using find_stop_empty_and_truncated
      [where reply = "HttpResponse 200 []
              (Some (JObj [(''data'', JObj [(''stops'', JArr
                 [JObj [(''gtfsId'', JStr ''HSL:1'')], JObj [(''gtfsId'', JStr ''HSL:2'')],
                  JObj [(''gtfsId'', JStr ''HSL:3'')]])])]))"
         and root = "[(''data'', JObj [(''stops'', JArr
                 [JObj [(''gtfsId'', JStr ''HSL:1'')], JObj [(''gtfsId'', JStr ''HSL:2'')],
                  JObj [(''gtfsId'', JStr ''HSL:3'')]])])]"
         and d = "[(''stops'', JArr
                 [JObj [(''gtfsId'', JStr ''HSL:1'')], JObj [(''gtfsId'', JStr ''HSL:2'')],
                  JObj [(''gtfsId'', JStr ''HSL:3'')]])]"
         and stops = "[JObj [(''gtfsId'', JStr ''HSL:1'')], JObj [(''gtfsId'', JStr ''HSL:2'')],
                  JObj [(''gtfsId'', JStr ''HSL:3'')]]"
         and name = "''a''" and limit = 2]
    by (simp add: make_graphql_request_def dict_get_def)
  then obtain results where
    "map_raising format_stop
        (take (nat 2) [JObj [(''gtfsId'', JStr ''HSL:1'')], JObj [(''gtfsId'', JStr ''HSL:2'')],
            JObj [(''gtfsId'', JStr ''HSL:3'')]]) = Inr results"
    and found: "find_stop
           (HttpResponse 200 []
              (Some (JObj [(''data'', JObj [(''stops'', JArr
                 [JObj [(''gtfsId'', JStr ''HSL:1'')], JObj [(''gtfsId'', JStr ''HSL:2'')],
                  JObj [(''gtfsId'', JStr ''HSL:3'')]])])])))
           ''a'' 2 =
          Inr (''Found '' @ py_str_int 2 @ '' stop(s) matching '' @ [CHR 0x27] @ ''a''
               @ [CHR 0x27] @ '':\<newline>\<newline>'' @ join ''\<newline>\<newline>'' results)"
    by blast
  then have "results =
      [''ID: HSL:1\<newline>  Name: N/A\<newline>  Code: N/A\<newline>  Location: N/A\<newline>  Coordinates: N/A, N/A'',
       ''ID: HSL:2\<newline>  Name: N/A\<newline>  Code: N/A\<newline>  Location: N/A\<newline>  Coordinates: N/A, N/A'']"
    by (simp add: format_stop_def dict_get_def py_str_def)
  with found none show ?thesis
    by (simp add: py_str_int_def nat_digits_small digit_char_def)
qed

subsection \<open>C1: \<^verbatim>\<open>draft_finnish\<close> can raise\<close>

text \<open>
  C1 says that \<^verbatim>\<open>draft_finnish\<close> never raises. Two inputs on which the code raises,
  with the endpoint configured: a response with status 200 whose body is not JSON
  (\<^verbatim>\<open>response.json()\<close> raises inside \<^verbatim>\<open>_post_to_vllm\<close>, and the \<^verbatim>\<open>except\<close> clauses
  name \<^verbatim>\<open>httpx\<close> errors only), and a response whose
  \<^verbatim>\<open>choices[0].message.content\<close> is \<^verbatim>\<open>null\<close> (\<^verbatim>\<open>completion.strip()\<close> stands after
  the \<^verbatim>\<open>try\<close> block). The body text, the prompt and the other arguments are arbitrary.
\<close>

theorem draft_finnish_raises:
  "snd (draft_finnish
          \<lparr>vllm_endpoint = Some ''http://mock.local/v1/chat/completions'',
           vllm_model = Some ''mock-model'', vllm_api_key = None,
           DEFAULT_MODEL = dm, DEFAULT_SYSTEM_PROMPT = dsp\<rparr>
          (\<lambda>call. HttpResponse 200 body None) prompt temp max_tok system_prompt)
     = Inl JSONDecodeError
   \<and> snd (draft_finnish
          \<lparr>vllm_endpoint = Some ''http://mock.local/v1/chat/completions'',
           vllm_model = Some ''mock-model'', vllm_api_key = None,
           DEFAULT_MODEL = dm, DEFAULT_SYSTEM_PROMPT = dsp\<rparr>
          (\<lambda>call. HttpResponse 200 body
             (Some (JObj [(''choices'', JArr [JObj [(''message'',
                JObj [(''content'', JNull)])]])])))
          prompt temp max_tok system_prompt)
     = Inl AttributeError"
  by (simp add: draft_finnish_def post_to_vllm_def extract_completion_def completion_path_def
      py_subscript_key_def py_subscript_idx_def seq_index_def Let_def)

subsection \<open>C6: a completion that is not a string\<close>

text \<open>
  C6 says that a response whose path \<^verbatim>\<open>choices[0].message.content\<close> exists yields the
  stripped content, that a malformed one yields a string, and that no error is thrown.
  On the body \<^verbatim>\<open>{"choices":[{"message":{"content":42}}]}\<close> the path exists, its value
  has no \<^verbatim>\<open>strip\<close>, and the code raises \<^verbatim>\<open>AttributeError\<close>.
\<close>

theorem non_string_content_raises:
  "extract_completion
     (JObj [(''choices'', JArr [JObj [(''message'', JObj [(''content'', JInt 42)])]])])
     = Inl AttributeError
   \<and> snd (draft_finnish
          \<lparr>vllm_endpoint = Some ''http://mock.local/v1/chat/completions'',
           vllm_model = None, vllm_api_key = Some ''key'',
           DEFAULT_MODEL = dm, DEFAULT_SYSTEM_PROMPT = dsp\<rparr>
          (\<lambda>call. HttpResponse 200 body
             (Some (JObj [(''choices'', JArr [JObj [(''message'',
                JObj [(''content'', JInt 42)])]])])))
          prompt temp max_tok system_prompt)
     = Inl AttributeError"
  by (simp add: draft_finnish_def post_to_vllm_def extract_completion_def completion_path_def
      py_subscript_key_def py_subscript_idx_def seq_index_def Let_def)

section \<open>Further properties of the code\<close>

subsection \<open>What \<^verbatim>\<open>draft_finnish\<close> makes of a decoded response\<close>

lemma py_subscript_key_raises:
  assumes "py_subscript_key x k = Inl e"
  shows "e = KeyError \<or> e = TypeError"
  using assms by (cases x) (auto simp: py_subscript_key_def split: option.splits)

lemma seq_index_raises:
  assumes "seq_index xs i = Inl e"
  shows "e = IndexError"
  using assms by (auto simp: seq_index_def split: if_splits)

lemma py_subscript_idx_raises:
  assumes "py_subscript_idx x i = Inl e"
  shows "e = KeyError \<or> e = IndexError \<or> e = TypeError"
  using assms
  by (cases x) (auto simp: py_subscript_idx_def and_then_def split: sum.splits
      dest: seq_index_raises)

lemma completion_path_raises:
  assumes "completion_path data = Inl e"
  shows "e = KeyError \<or> e = IndexError \<or> e = TypeError"
  using assms
  by (auto simp: completion_path_def and_then_def split: sum.splits
      dest: py_subscript_key_raises py_subscript_idx_raises)

text \<open>
  The path \<^verbatim>\<open>choices[0].message.content\<close> raises nothing but \<^verbatim>\<open>KeyError\<close>,
  \<^verbatim>\<open>IndexError\<close> and \<^verbatim>\<open>TypeError\<close>, so a response without the path always yields
  \<^verbatim>\<open>"Unexpected response format from vLLM: {data}"\<close>; a string at the path yields the
  stripped string; any other value at the path makes the call raise
  \<^verbatim>\<open>AttributeError\<close>.
\<close>

theorem extract_completion_cases:
  "extract_completion data =
     (case completion_path data of
        Inl e \<Rightarrow> Inr (''Unexpected response format from vLLM: '' @ py_str data)
      | Inr completion \<Rightarrow>
          (case completion of JStr s \<Rightarrow> Inr (py_strip s) | _ \<Rightarrow> Inl AttributeError))"
proof (cases "completion_path data")
  case (Inl e)
  then show ?thesis
    using completion_path_raises [OF Inl] by (auto simp: extract_completion_def)
next
  case (Inr completion)
  then show ?thesis
    by (simp add: extract_completion_def)
qed

theorem extract_completion_cases_witness:
  "extract_completion
     (JObj [(''choices'', JArr [JObj [(''message'', JObj [(''content'', JStr '' Hello '')])]])])
     = Inr ''Hello''
   \<and> extract_completion (JObj [(''id'', JInt 7)])
     = Inr (''Unexpected response format from vLLM: {'' @ [CHR 0x27] @ ''id'' @ [CHR 0x27]
            @ '': 7}'')"
  using extract_completion_cases
    [of "JObj [(''choices'', JArr [JObj [(''message'', JObj [(''content'', JStr '' Hello '')])]])]"]
    extract_completion_cases [of "JObj [(''id'', JInt 7)]"]
  by (simp add: completion_path_def py_subscript_key_def py_subscript_idx_def seq_index_def
      py_strip_def py_isspace_def py_str_def py_repr_str_def repr_char_def py_printable_def
      py_str_int_def nat_digits_small digit_char_def Let_def)

subsection \<open>One POST, and the result by its outcome\<close>

text \<open>
  With the endpoint configured, \<^verbatim>\<open>draft_finnish\<close> calls the HTTP client exactly
  once, for the endpoint, with the payload \<^verbatim>\<open>{model, messages, temperature, max_tokens}\<close> and the
  \<^verbatim>\<open>Authorization: Bearer\<close> header when a key is set. A transport failure gives the
  string naming the endpoint and the error, an exception of the client before the
  request is sent is raised to the caller, a status outside 2xx gives the string with the
  status code and the body, a 2xx body that is not JSON raises, and a decoded body goes
  through the extraction above.
\<close>

theorem draft_finnish_one_post:
  assumes "vllm_endpoint cfg = Some ep" and "ep \<noteq> []"
      and "call = \<lparr>endpoint = ep,
                   payload = \<lparr>model = (case vllm_model cfg of
                                         None \<Rightarrow> DEFAULT_MODEL cfg | Some m \<Rightarrow> m),
                              messages = build_messages cfg prompt system_prompt,
                              temperature = temp,
                              max_tokens = max_tok\<rparr>,
                   headers = [(''Content-Type'', ''application/json'')]
                             @ (case vllm_api_key cfg of
                                  None \<Rightarrow> []
                                | Some k \<Rightarrow>
                                    if k \<noteq> [] then [(''Authorization'', ''Bearer '' @ k)]
                                    else [])\<rparr>"
  shows "draft_finnish cfg client prompt temp max_tok system_prompt =
           ([call],
            case client call of
              NotSent f \<Rightarrow> Inl (send_exception f)
            | TransportFailure msg \<Rightarrow>
                Inr (''Unable to reach vLLM endpoint at '' @ ep @ '': '' @ msg)
            | HttpResponse status body decoded \<Rightarrow>
                if 200 \<le> status \<and> status < 300
                then (case decoded of
                        None \<Rightarrow> Inl JSONDecodeError
                      | Some data \<Rightarrow> extract_completion data)
                else Inr (''vLLM returned an error: '' @ py_str_int status @ '' '' @ body))"
proof (cases "client call")
  case (NotSent f)
  then show ?thesis
    using assms
    by (cases f) (simp_all add: draft_finnish_def post_to_vllm_def send_exception_def Let_def)
next
  case (TransportFailure msg)
  then show ?thesis
    using assms by (simp add: draft_finnish_def post_to_vllm_def Let_def)
next
  case (HttpResponse status body decoded)
  then show ?thesis
    using assms
    by (cases decoded) (simp_all add: draft_finnish_def post_to_vllm_def Let_def)
qed

theorem draft_finnish_one_post_witness:
  "draft_finnish
     \<lparr>vllm_endpoint = Some ''http://mock.local/v1/chat/completions'',
      vllm_model = Some ''mock-model'', vllm_api_key = Some ''k'',
      DEFAULT_MODEL = ''m'', DEFAULT_SYSTEM_PROMPT = []\<rparr>
     (\<lambda>call. HttpResponse 503 ''busy'' None) ''Hei'' ''0.7'' 1024 None
   = ([\<lparr>endpoint = ''http://mock.local/v1/chat/completions'',
        payload = \<lparr>model = ''mock-model'',
                   messages = [\<lparr>role = ''user'', content = ''Hei''\<rparr>],
                   temperature = ''0.7'', max_tokens = 1024\<rparr>,
        headers = [(''Content-Type'', ''application/json''), (''Authorization'', ''Bearer k'')]\<rparr>],
      Inr ''vLLM returned an error: 503 busy'')"
  using draft_finnish_one_post
    [where cfg = "\<lparr>vllm_endpoint = Some ''http://mock.local/v1/chat/completions'',
           vllm_model = Some ''mock-model'', vllm_api_key = Some ''k'',
           DEFAULT_MODEL = ''m'', DEFAULT_SYSTEM_PROMPT = []\<rparr>"
       and ep = "''http://mock.local/v1/chat/completions''"
       and client = "\<lambda>call. HttpResponse 503 ''busy'' None"
       and prompt = "''Hei''" and temp = "''0.7''" and max_tok = 1024 and system_prompt = None
       and call = "\<lparr>endpoint = ''http://mock.local/v1/chat/completions'',
        payload = \<lparr>model = ''mock-model'',
                   messages = [\<lparr>role = ''user'', content = ''Hei''\<rparr>],
                   temperature = ''0.7'', max_tokens = 1024\<rparr>,
        headers = [(''Content-Type'', ''application/json''), (''Authorization'', ''Bearer k'')]\<rparr>"]
  by (simp add: build_messages_def py_str_int_def nat_digits_small nat_digits_big digit_char_def)

subsection \<open>The transit operations on a failed request\<close>

text \<open>
  On a request that could not be sent, a transport failure, a status outside 2xx or a
  body that is not JSON,
  \<^verbatim>\<open>get_departures\<close>, \<^verbatim>\<open>get_timetable\<close> and \<^verbatim>\<open>find_stop\<close> return their fixed
  \<^verbatim>\<open>"Unable to ..."\<close> strings.
\<close>

theorem failed_request_messages:
  assumes "reply = NotSent f
         \<or> reply = TransportFailure msg
         \<or> reply = HttpResponse status body None
         \<or> (reply = HttpResponse status body decoded \<and> (status < 200 \<or> 300 \<le> status))"
  shows "get_departures p reply stop_id limit =
           Inr (''Unable to fetch departures for stop ID: '' @ stop_id)
       \<and> get_timetable p reply stop_id start_time time_range =
           Inr (''Unable to fetch timetable for stop ID: '' @ stop_id)
       \<and> find_stop reply name limit =
           Inr (''Unable to search for stops with name: '' @ name)"
proof -
  have "make_graphql_request reply = JNull"
    using assms by (auto simp: make_graphql_request_def)
  then show ?thesis
    by (simp add: get_departures_def get_timetable_def find_stop_def Let_def)
qed

theorem failed_request_messages_witness:
  "get_departures utc_platform (TransportFailure ''timed out'') ''HSL:1040129'' 10 =
     Inr ''Unable to fetch departures for stop ID: HSL:1040129''
   \<and> get_timetable utc_platform (TransportFailure ''timed out'') ''HSL:1040129'' 0 3600 =
     Inr ''Unable to fetch timetable for stop ID: HSL:1040129''
   \<and> find_stop (TransportFailure ''timed out'') ''Kamppi'' 10 =
     Inr ''Unable to search for stops with name: Kamppi''"
  using failed_request_messages
    [where reply = "TransportFailure ''timed out''" and msg = "''timed out''"
       and p = utc_platform and stop_id = "''HSL:1040129''" and limit = 10
       and start_time = 0 and time_range = 3600 and name = "''Kamppi''"]
  by simp

end
